theory Spec2Isabelle
  imports Main
begin

section \<open>JavaScript strings\<close>

text \<open>
  A JavaScript string is a sequence of UTF-16 code units; \<open>length\<close> counts code units.
  ASCII literals of the source are written \<open>str ''...''\<close>.
\<close>

type_synonym jsstring = "nat list"

definition str :: "string \<Rightarrow> jsstring" where
  "str s = map of_char s"

text \<open>
  \<open>String.prototype.trim\<close> strips ECMAScript WhiteSpace and LineTerminator code units
  from both ends: TAB, LF, VT, FF, CR, SP, NBSP, U+1680, U+2000..U+200A, U+2028, U+2029,
  U+202F, U+205F, U+3000 and U+FEFF.
\<close>

definition isWhiteSpace :: "nat \<Rightarrow> bool" where
  "isWhiteSpace c =
     (c = 9 \<or> c = 10 \<or> c = 11 \<or> c = 12 \<or> c = 13 \<or> c = 32 \<or> c = 160 \<or> c = 5760 \<or>
      (8192 \<le> c \<and> c \<le> 8202) \<or> c = 8232 \<or> c = 8233 \<or> c = 8239 \<or> c = 8287 \<or>
      c = 12288 \<or> c = 65279)"

definition trim :: "jsstring \<Rightarrow> jsstring" where
  "trim s = rev (dropWhile isWhiteSpace (rev (dropWhile isWhiteSpace s)))"

section \<open>Data model\<close>

record Jurisdiction =
  country :: jsstring
  eu :: bool
  ohada :: bool

datatype RiskLevel = LOW | MEDIUM | HIGH

record Risk =
  level :: RiskLevel
  why :: jsstring
  hitl_required :: bool

record IracRule =
  citation :: jsstring
  source_url :: jsstring
  binding :: bool
  effective_date :: jsstring

record Citation =
  cit_title :: jsstring
  court_or_publisher :: jsstring
  cit_date :: jsstring
  cit_url :: jsstring
  cit_note :: "jsstring option"

record IracPayload =
  jurisdiction :: Jurisdiction
  issue :: jsstring
  rules :: "IracRule list"
  application :: jsstring
  conclusion :: jsstring
  citations :: "Citation list"
  risk :: Risk

text \<open>
  The trust panel of a run. Only the fields read by the derivations below are kept;
  every sub-object that the view reads through \<open>?.\<close> or \<open>??\<close> is an option. Field names
  are the source's; a prefix is added where two objects share a name (\<open>title\<close>, \<open>url\<close>,
  \<open>requirement\<close>, \<open>risk\<close>, \<open>verification\<close>, \<open>code\<close>, \<open>label\<close>), a citation's \<open>note\<close> and
  \<open>date\<close> are \<open>cit_note\<close> and \<open>cit_date\<close>, and a run's \<open>data\<close> is \<open>run_data\<close>.
\<close>

record NonAllowlistedItem =
  na_title :: "jsstring option"
  na_url :: jsstring

record CitationSummary =
  nonAllowlisted :: "NonAllowlistedItem list"

record Requirement =
  version :: jsstring

record Consent =
  consent_requirement :: "Requirement option"
  accepted :: bool
  latestVersion :: "jsstring option"

record CouncilOfEurope =
  coe_requirement :: "Requirement option"
  acknowledged :: bool
  acknowledgedVersion :: "jsstring option"

record Compliance =
  friaRequired :: bool
  friaValidated :: bool
  friaReasons :: "jsstring list"
  cepejPassed :: bool
  cepejViolations :: "jsstring list"
  consent :: Consent
  councilOfEurope :: CouncilOfEurope

record Verification =
  allowlistViolations :: "jsstring list"

record TrustRisk =
  risk_verification :: "Verification option"

record TrustPanel =
  citationSummary :: "CitationSummary option"
  trust_risk :: "TrustRisk option"
  compliance :: "Compliance option"

record Agent =
  agent_code :: jsstring
  agent_label :: jsstring

record AgentRunResponse =
  runId :: jsstring
  agent :: "Agent option"
  run_data :: "IracPayload option"
  verification :: "Verification option"
  trustPanel :: "TrustPanel option"

section \<open>Outbox store\<close>

type_synonym AgentSettings = "(jsstring \<times> jsstring) list"

record OutboxDraft =
  draft_question :: jsstring
  draft_context :: jsstring
  draft_confidentialMode :: bool
  draft_agentCode :: jsstring
  draft_agentLabel :: jsstring
  draft_agentSettings :: "AgentSettings option"

record OutboxItem =
  item_id :: nat
  item_question :: jsstring
  item_context :: jsstring
  item_confidentialMode :: bool
  item_agentCode :: jsstring
  item_agentLabel :: jsstring
  item_agentSettings :: "AgentSettings option"

record OutboxState =
  items :: "OutboxItem list"
  nextId :: nat

text \<open>
  Modelled from the spec: the hook \<open>useOutbox\<close> (hooks/use-outbox) is imported by the
  research view but is not among the source files. Section 4.2 of the specification gives
  \<open>enqueue(request)\<close>: "assigns a fresh unique id, appends to the end of the ordered
  sequence", and \<open>remove(id)\<close>: "removes the item with that id if present; no-op (not an
  error) if absent". The id generator is a counter.
\<close>

definition enqueue :: "OutboxDraft \<Rightarrow> OutboxState \<Rightarrow> OutboxState" where
  "enqueue d ob =
     ob\<lparr>items := items ob @
            [\<lparr>item_id = nextId ob,
              item_question = draft_question d,
              item_context = draft_context d,
              item_confidentialMode = draft_confidentialMode d,
              item_agentCode = draft_agentCode d,
              item_agentLabel = draft_agentLabel d,
              item_agentSettings = draft_agentSettings d\<rparr>],
        nextId := Suc (nextId ob)\<rparr>"

definition remove :: "nat \<Rightarrow> OutboxState \<Rightarrow> OutboxState" where
  "remove i ob = ob\<lparr>items := filter (\<lambda>it. item_id it \<noteq> i) (items ob)\<rparr>"

section \<open>The research view: state and recorded effects\<close>

datatype Locale = FR | EN

record OutboxMessages =
  queued :: jsstring
  sent :: "jsstring option"
  stillOffline :: jsstring

record AgentOption =
  option_key :: jsstring
  option_code :: jsstring
  option_label :: jsstring
  option_mission :: jsstring

text \<open>
  What the component receives from outside: its props (\<open>locale\<close>, the outbox messages of
  \<open>messages.research.outbox\<close>) and the module constants \<open>AGENT_OPTIONS\<close>, \<open>DEMO_ORG_ID\<close>
  and \<open>DEMO_USER_ID\<close>, whose defining modules are not among the source files.
\<close>

record ViewEnv =
  view_locale :: Locale
  outboxMessages :: OutboxMessages
  agentOptions :: "AgentOption list"
  DEMO_ORG_ID :: jsstring
  DEMO_USER_ID :: jsstring

datatype ToastKind = ToastError | ToastInfo | ToastSuccess

text \<open>\<open>toast_key = Some i\<close> stands for the option \<open>{ id: `outbox-${i}` }\<close>.\<close>

record Toast =
  toast_kind :: ToastKind
  toast_message :: jsstring
  toast_key :: "nat option"

datatype Json = JBool bool | JNum nat | JStr jsstring | JNull

record TelemetryEvent =
  eventName :: string
  properties :: "(string \<times> Json) list"

record AgentRequest =
  req_question :: jsstring
  req_context :: jsstring
  req_orgId :: jsstring
  req_userId :: jsstring
  req_confidentialMode :: bool
  req_agentCode :: jsstring
  req_agentSettings :: "AgentSettings option"

text \<open>
  The component state (\<open>useState\<close> cells, the plan drawer's \<open>open\<close> flag and the outbox
  of \<open>useOutbox\<close>), followed by logs of the effects a handler performs: toasts shown,
  telemetry events sent, calls of the remote agent (\<open>mutation.mutateAsync\<close>) and
  \<open>avocat-run-success\<close> window events dispatched. The source's state cell \<open>context\<close> is
  named \<open>contextText\<close> here.
\<close>

record ViewState =
  question :: jsstring
  contextText :: jsstring
  ohadaMode :: bool
  euOverlay :: bool
  confidentialMode :: bool
  agentCode :: jsstring
  latestRun :: "AgentRunResponse option"
  planOpen :: bool
  outbox :: OutboxState
  toasts :: "Toast list"
  telemetry :: "TelemetryEvent list"
  agentCalls :: "AgentRequest list"
  runSuccessEvents :: nat

text \<open>A value caught by \<open>catch (error)\<close>: an \<open>Error\<close> instance with its message, or anything else.\<close>

datatype Thrown = ErrorInstance jsstring | NotAnError

text \<open>How the awaited remote call settles: rejected with a thrown value, or resolved with a run.\<close>

type_synonym Outcome = "Thrown + AgentRunResponse"

text \<open>
  The effects, each appending to its log: \<open>toast.error\<close>, \<open>toast.info\<close> and
  \<open>toast.success\<close> (\<open>toast_show\<close> with the kind), \<open>sendTelemetryEvent\<close>,
  \<open>mutation.mutateAsync\<close>, \<open>setLatestRun\<close>, the plan drawer's \<open>toggle\<close> and
  \<open>window.dispatchEvent(new CustomEvent('avocat-run-success'))\<close>.
\<close>

definition toast_show :: "ToastKind \<Rightarrow> jsstring \<Rightarrow> nat option \<Rightarrow> ViewState \<Rightarrow> ViewState" where
  "toast_show k m i s = s\<lparr>toasts := toasts s @ [\<lparr>toast_kind = k, toast_message = m, toast_key = i\<rparr>]\<rparr>"

definition sendTelemetryEvent :: "string \<Rightarrow> (string \<times> Json) list \<Rightarrow> ViewState \<Rightarrow> ViewState" where
  "sendTelemetryEvent n ps s = s\<lparr>telemetry := telemetry s @ [\<lparr>eventName = n, properties = ps\<rparr>]\<rparr>"

definition mutateAsync :: "AgentRequest \<Rightarrow> ViewState \<Rightarrow> ViewState" where
  "mutateAsync r s = s\<lparr>agentCalls := agentCalls s @ [r]\<rparr>"

definition setLatestRun :: "AgentRunResponse \<Rightarrow> ViewState \<Rightarrow> ViewState" where
  "setLatestRun d s = s\<lparr>latestRun := Some d\<rparr>"

definition toggle :: "bool \<Rightarrow> ViewState \<Rightarrow> ViewState" where
  "toggle b s = s\<lparr>planOpen := b\<rparr>"

definition dispatchRunSuccess :: "ViewState \<Rightarrow> ViewState" where
  "dispatchRunSuccess s = s\<lparr>runSuccessEvents := Suc (runSuccessEvents s)\<rparr>"

definition telemetryEnabled :: "ViewState \<Rightarrow> bool" where
  "telemetryEnabled s = (\<not> confidentialMode s)"

definition selectedAgent :: "AgentOption list \<Rightarrow> jsstring \<Rightarrow> AgentOption option" where
  "selectedAgent opts code =
     (case find (\<lambda>opt. option_code opt = code) opts of
        Some opt \<Rightarrow> Some opt
      | None \<Rightarrow> (case opts of [] \<Rightarrow> None | first # _ \<Rightarrow> Some first))"

definition successMessage :: "Locale \<Rightarrow> jsstring" where
  "successMessage l = (if l = FR then str ''Analyse pr'' @ [234] @ str ''te'' else str ''Analysis ready'')"

definition validationMessage :: "Locale \<Rightarrow> jsstring" where
  "validationMessage l =
     (if l = FR then str ''Veuillez saisir une question juridique.''
      else str ''Please enter a legal question.'')"

text \<open>The expression \<open>error instanceof Error ? error.message : 'Agent indisponible'\<close>.\<close>

definition errorMessage :: "Thrown \<Rightarrow> jsstring" where
  "errorMessage e = (case e of ErrorInstance m \<Rightarrow> m | NotAnError \<Rightarrow> str ''Agent indisponible'')"

text \<open>
  The object both calls of \<open>enqueue\<close> in \<open>onSubmit\<close> pass, and \<open>enqueue\<close> and \<open>remove\<close> of
  the hook acting on the outbox held in the view state.
\<close>

definition currentDraft :: "ViewEnv \<Rightarrow> ViewState \<Rightarrow> OutboxDraft" where
  "currentDraft env s =
     \<lparr>draft_question = question s,
      draft_context = contextText s,
      draft_confidentialMode = confidentialMode s,
      draft_agentCode = agentCode s,
      draft_agentLabel =
        (case selectedAgent (agentOptions env) (agentCode s) of
           Some opt \<Rightarrow> option_label opt
         | None \<Rightarrow> agentCode s),
      draft_agentSettings = None\<rparr>"

definition enqueueOutbox :: "OutboxDraft \<Rightarrow> ViewState \<Rightarrow> ViewState" where
  "enqueueOutbox d s = s\<lparr>outbox := enqueue d (outbox s)\<rparr>"

text \<open>
  \<open>onSubmit\<close>, run to completion: \<open>online\<close> is what \<open>useOnlineStatus\<close> reported at render
  time and \<open>outcome\<close> is how the awaited \<open>mutation.mutateAsync\<close> settles. The handler reads
  \<open>question\<close>, \<open>context\<close>, \<open>confidentialMode\<close>, \<open>agentCode\<close> from its closure, that is, from
  the state \<open>s\<close> it was created in.
\<close>

definition onSubmit :: "ViewEnv \<Rightarrow> bool \<Rightarrow> Outcome \<Rightarrow> ViewState \<Rightarrow> ViewState" where
  "onSubmit env online outcome s =
     (if trim (question s) = [] then
        toast_show ToastError (validationMessage (view_locale env)) None s
      else if \<not> online then
        (let s1 = enqueueOutbox (currentDraft env s) s;
             s2 = toast_show ToastInfo (queued (outboxMessages env)) None s1;
             s3 = (if telemetryEnabled s
                   then sendTelemetryEvent ''outbox_enqueued''
                          [(''offline'', JBool True), (''agent'', JStr (agentCode s))] s2
                   else s2);
             s4 = s3\<lparr>question := []\<rparr>
         in s4\<lparr>contextText := []\<rparr>)
      else
        (let s1 = (if telemetryEnabled s
                   then sendTelemetryEvent ''run_submitted''
                          [(''questionLength'', JNum (length (question s))),
                           (''ohadaMode'', JBool (ohadaMode s)),
                           (''euOverlay'', JBool (euOverlay s)),
                           (''confidentialMode'', JBool (confidentialMode s)),
                           (''agent'', JStr (agentCode s))] s
                   else s);
             s2 = mutateAsync
                    \<lparr>req_question = question s,
                     req_context = contextText s,
                     req_orgId = DEMO_ORG_ID env,
                     req_userId = DEMO_USER_ID env,
                     req_confidentialMode = confidentialMode s,
                     req_agentCode = agentCode s,
                     req_agentSettings = None\<rparr> s1
         in case outcome of
              Inr d \<Rightarrow>
                (let s3 = setLatestRun d s2;
                     s4 = toggle True s3;
                     s5 = toast_show ToastSuccess (successMessage (view_locale env)) None s4;
                     s6 = dispatchRunSuccess s5
                 in if telemetryEnabled s
                    then sendTelemetryEvent ''run_completed''
                           [(''runId'', JStr (runId d)),
                            (''jurisdiction'',
                               (case run_data d of
                                  Some p \<Rightarrow> JStr (country (jurisdiction p))
                                | None \<Rightarrow> JNull)),
                            (''risk'',
                               (case run_data d of
                                  Some p \<Rightarrow> JStr (str (case level (risk p) of
                                      LOW \<Rightarrow> ''LOW'' | MEDIUM \<Rightarrow> ''MEDIUM'' | HIGH \<Rightarrow> ''HIGH''))
                                | None \<Rightarrow> JNull)),
                            (''agent'',
                               JStr (case agent d of
                                  Some a \<Rightarrow> agent_code a
                                | None \<Rightarrow> agentCode s))] s6
                    else s6)
            | Inl e \<Rightarrow>
                (let message = errorMessage e;
                     s3 = toast_show ToastError message None s2;
                     s4 = (if telemetryEnabled s
                           then sendTelemetryEvent ''run_failed''
                                  [(''message'', JStr message), (''agent'', JStr (agentCode s))] s3
                           else s3);
                     s5 = enqueueOutbox (currentDraft env s) s4;
                     s6 = toast_show ToastInfo (queued (outboxMessages env)) None s5
                 in if telemetryEnabled s
                    then sendTelemetryEvent ''outbox_enqueued''
                           [(''offline'', JBool False), (''agent'', JStr (agentCode s))] s6
                    else s6)))"

datatype Source = Manual | Auto

text \<open>The request \<open>processOutboxItem\<close> passes to \<open>mutation.mutateAsync\<close> for an item.\<close>

definition itemRequest :: "ViewEnv \<Rightarrow> OutboxItem \<Rightarrow> AgentRequest" where
  "itemRequest env item =
     \<lparr>req_question = item_question item,
      req_context = item_context item,
      req_orgId = DEMO_ORG_ID env,
      req_userId = DEMO_USER_ID env,
      req_confidentialMode = item_confidentialMode item,
      req_agentCode = item_agentCode item,
      req_agentSettings = item_agentSettings item\<rparr>"

definition outboxEventName :: "Source \<Rightarrow> string" where
  "outboxEventName source = (if source = Manual then ''outbox_retry'' else ''outbox_auto_flush'')"

text \<open>
  \<open>processOutboxItem\<close> returns the boolean the sender resolves to, with the state after
  its effects. \<open>telemetryEnabled\<close> and \<open>open\<close> are read from the closure (the state \<open>s\<close>).
\<close>

definition processOutboxItem ::
  "ViewEnv \<Rightarrow> OutboxItem \<Rightarrow> Source \<Rightarrow> Outcome \<Rightarrow> ViewState \<Rightarrow> bool \<times> ViewState" where
  "processOutboxItem env item source outcome s =
     (if item_confidentialMode item \<and> source = Auto then (False, s)
      else
        (let s1 = mutateAsync (itemRequest env item) s
         in case outcome of
              Inr d \<Rightarrow>
                (let s2 = setLatestRun d s1;
                     s3 = (if source = Manual \<or> \<not> planOpen s then toggle True s2 else s2);
                     successLabel =
                       (if source = Manual then successMessage (view_locale env)
                        else (case sent (outboxMessages env) of
                                Some m \<Rightarrow> m
                              | None \<Rightarrow> successMessage (view_locale env)));
                     s4 = toast_show ToastSuccess successLabel (Some (item_id item)) s3;
                     s5 = dispatchRunSuccess s4;
                     itemTelemetryEnabled = (telemetryEnabled s \<and> \<not> item_confidentialMode item)
                 in (True,
                     if itemTelemetryEnabled
                     then sendTelemetryEvent (outboxEventName source)
                            [(''success'', JBool True),
                             (''runId'', JStr (runId d)),
                             (''agent'',
                                JStr (case agent d of
                                   Some a \<Rightarrow> agent_code a
                                 | None \<Rightarrow> item_agentCode item))] s5
                     else s5))
            | Inl e \<Rightarrow>
                (let message = errorMessage e;
                     s2 = toast_show ToastError message (Some (item_id item)) s1;
                     itemTelemetryEnabled = (telemetryEnabled s \<and> \<not> item_confidentialMode item)
                 in (False,
                     if itemTelemetryEnabled
                     then sendTelemetryEvent (outboxEventName source)
                            [(''success'', JBool False),
                             (''message'', JStr message),
                             (''agent'', JStr (item_agentCode item))] s2
                     else s2))))"

definition removeOutbox :: "nat \<Rightarrow> ViewState \<Rightarrow> ViewState" where
  "removeOutbox i s = s\<lparr>outbox := remove i (outbox s)\<rparr>"

definition handleOutboxRetry ::
  "ViewEnv \<Rightarrow> bool \<Rightarrow> OutboxItem \<Rightarrow> Outcome \<Rightarrow> ViewState \<Rightarrow> ViewState" where
  "handleOutboxRetry env online item outcome s =
     (if \<not> online then toast_show ToastInfo (stillOffline (outboxMessages env)) None s
      else
        (case processOutboxItem env item Manual outcome s of
           (success, s1) \<Rightarrow> if success then removeOutbox (item_id item) s1 else s1))"

section \<open>Trust and compliance derivations\<close>

text \<open>
  The constants \<open>trustPanel\<close>, \<open>verification\<close> and \<open>allowlistViolations\<close> of the component
  carry the prefix \<open>view_\<close>, their names being those of the fields they read. Each is a
  function of \<open>latestRun\<close>.
\<close>

definition view_trustPanel :: "AgentRunResponse option \<Rightarrow> TrustPanel option" where
  "view_trustPanel run = (case run of None \<Rightarrow> None | Some r \<Rightarrow> trustPanel r)"

definition trustCitationSummary :: "AgentRunResponse option \<Rightarrow> CitationSummary option" where
  "trustCitationSummary run =
     (case view_trustPanel run of None \<Rightarrow> None | Some tp \<Rightarrow> citationSummary tp)"

definition trustRisk :: "AgentRunResponse option \<Rightarrow> TrustRisk option" where
  "trustRisk run = (case view_trustPanel run of None \<Rightarrow> None | Some tp \<Rightarrow> trust_risk tp)"

definition trustCompliance :: "AgentRunResponse option \<Rightarrow> Compliance option" where
  "trustCompliance run = (case view_trustPanel run of None \<Rightarrow> None | Some tp \<Rightarrow> compliance tp)"

definition view_verification :: "AgentRunResponse option \<Rightarrow> Verification option" where
  "view_verification run =
     (case (case run of None \<Rightarrow> None | Some r \<Rightarrow> verification r) of
        Some v \<Rightarrow> Some v
      | None \<Rightarrow> (case trustRisk run of None \<Rightarrow> None | Some tr \<Rightarrow> risk_verification tr))"

definition view_allowlistViolations :: "AgentRunResponse option \<Rightarrow> jsstring list" where
  "view_allowlistViolations run =
     (case view_verification run of None \<Rightarrow> [] | Some v \<Rightarrow> allowlistViolations v)"

text \<open>
  \<open>new URL(url).hostname\<close> is the platform's URL parser: \<open>hostname url = None\<close> when the
  constructor throws, \<open>Some h\<close> when it parses (\<open>h\<close> is empty for a URL without a host).
\<close>

type_synonym UrlParser = "jsstring \<Rightarrow> jsstring option"

text \<open>\<open>Array.from(new Set(xs))\<close>: a set keeps the first occurrence of each value, in insertion order.\<close>

primrec setAddAll :: "'a list \<Rightarrow> 'a list \<Rightarrow> 'a list" where
  "setAddAll seen [] = seen"
| "setAddAll seen (x # xs) = setAddAll (if x \<in> set seen then seen else seen @ [x]) xs"

definition arrayFromSet :: "'a list \<Rightarrow> 'a list" where
  "arrayFromSet xs = setAddAll [] xs"

text \<open>The callback of \<open>allowlistViolations.map\<close>: the hostname, or the string itself when parsing throws.\<close>

definition hostnameOrUrl :: "UrlParser \<Rightarrow> jsstring \<Rightarrow> jsstring" where
  "hostnameOrUrl hostname u = (case hostname u of Some h \<Rightarrow> h | None \<Rightarrow> u)"

definition fallbackViolationHosts :: "UrlParser \<Rightarrow> jsstring list \<Rightarrow> jsstring list" where
  "fallbackViolationHosts hostname violations =
     (if length violations = 0 then []
      else arrayFromSet (filter (\<lambda>v. v \<noteq> []) (map (hostnameOrUrl hostname) violations)))"

definition allowlistClean :: "AgentRunResponse option \<Rightarrow> bool" where
  "allowlistClean run =
     (case trustCitationSummary run of
        Some c \<Rightarrow> length (nonAllowlisted c) = 0
      | None \<Rightarrow> length (view_allowlistViolations run) = 0)"

definition allowlistDetails :: "UrlParser \<Rightarrow> AgentRunResponse option \<Rightarrow> jsstring list" where
  "allowlistDetails hostname run =
     (case trustCitationSummary run of
        Some c \<Rightarrow>
          map (\<lambda>item. case na_title item of
                        None \<Rightarrow> na_url item
                      | Some t \<Rightarrow> if t = [] then na_url item else t @ [32, 8212, 32] @ na_url item)
              (nonAllowlisted c)
      | None \<Rightarrow> fallbackViolationHosts hostname (view_allowlistViolations run))"

record TrustMessages =
  msg_allowlistClean :: jsstring
  msg_allowlistIssues :: jsstring
  complianceFria :: jsstring
  complianceFriaFallback :: jsstring
  complianceCepej :: jsstring
  complianceCepejFallback :: jsstring
  complianceConsentPending :: jsstring
  complianceConsentAcknowledged :: jsstring
  complianceCoePending :: jsstring
  complianceCoeAcknowledged :: jsstring
  complianceFriaValidated :: jsstring
  complianceFriaPending :: jsstring
  complianceFriaNotRequired :: jsstring
  complianceResolved :: jsstring
  complianceResolvedDetail :: jsstring
  complianceUnavailable :: jsstring

definition allowlistSummary :: "TrustMessages \<Rightarrow> AgentRunResponse option \<Rightarrow> jsstring" where
  "allowlistSummary tm run = (if allowlistClean run then msg_allowlistClean tm else msg_allowlistIssues tm)"

text \<open>
  \<open>String.prototype.replace\<close> with a string pattern: the first occurrence of the pattern is
  replaced; in the replacement, \<open>$$\<close> stands for \<open>$\<close>, \<open>$&\<close> for the matched text, \<open>$`\<close> and
  \<open>$'\<close> for the text before and after the match, and every other \<open>$\<close> is literal (a string
  pattern has no capture groups).
\<close>

fun splitAtFirst :: "jsstring \<Rightarrow> jsstring \<Rightarrow> (jsstring \<times> jsstring) option" where
  "splitAtFirst pat [] = (if pat = [] then Some ([], []) else None)"
| "splitAtFirst pat (c # cs) =
     (if take (length pat) (c # cs) = pat then Some ([], drop (length pat) (c # cs))
      else (case splitAtFirst pat cs of
              None \<Rightarrow> None
            | Some (preceding, following) \<Rightarrow> Some (c # preceding, following)))"

fun getSubstitution :: "jsstring \<Rightarrow> jsstring \<Rightarrow> jsstring \<Rightarrow> jsstring \<Rightarrow> jsstring" where
  "getSubstitution matched preceding following [] = []"
| "getSubstitution matched preceding following [c] = [c]"
| "getSubstitution matched preceding following (c # d # rest) =
     (if c = 36 \<and> d = 36 then 36 # getSubstitution matched preceding following rest
      else if c = 36 \<and> d = 96 then preceding @ getSubstitution matched preceding following rest
      else if c = 36 \<and> d = 38 then matched @ getSubstitution matched preceding following rest
      else if c = 36 \<and> d = 39 then following @ getSubstitution matched preceding following rest
      else c # getSubstitution matched preceding following (d # rest))"

definition replace :: "jsstring \<Rightarrow> jsstring \<Rightarrow> jsstring \<Rightarrow> jsstring" where
  "replace s pat replacement =
     (case splitAtFirst pat s of
        None \<Rightarrow> s
      | Some (preceding, following) \<Rightarrow>
          preceding @ getSubstitution pat preceding following replacement @ following)"

text \<open>\<open>Array.prototype.join\<close>.\<close>

fun join :: "jsstring \<Rightarrow> jsstring list \<Rightarrow> jsstring" where
  "join sep [] = []"
| "join sep [x] = x"
| "join sep (x # y # ys) = x @ sep @ join sep (y # ys)"

text \<open>
  \<open>complianceIssues\<close>: the array \<open>issues\<close> is threaded through the four \<open>if\<close> blocks.
  \<open>cepejMessages\<close> is the object \<open>complianceMessages.cepejViolations\<close>, read by key.
\<close>

definition complianceIssues ::
  "(jsstring \<rightharpoonup> jsstring) \<Rightarrow> TrustMessages \<Rightarrow> Compliance option \<Rightarrow> jsstring list" where
  "complianceIssues cepejMessages tm tc =
     (case tc of
        None \<Rightarrow> []
      | Some c \<Rightarrow>
          (let issues0 = [];
               issues1 =
                 (if friaRequired c \<and> \<not> friaValidated c then
                    (let reason = (case friaReasons c of
                                     [] \<Rightarrow> complianceFriaFallback tm
                                   | r # _ \<Rightarrow> r)
                     in issues0 @ [replace (complianceFria tm) (str ''{reason}'') reason])
                  else issues0);
               issues2 =
                 (if \<not> cepejPassed c then
                    (let detail =
                           (if length (cepejViolations c) \<noteq> 0 then
                              join [32, 8226, 32]
                                (map (\<lambda>code. case cepejMessages code of
                                               Some m \<Rightarrow> m
                                             | None \<Rightarrow> complianceCepejFallback tm)
                                     (cepejViolations c))
                            else complianceCepejFallback tm)
                     in issues1 @ [replace (complianceCepej tm) (str ''{detail}'') detail])
                  else issues1);
               issues3 =
                 (case consent_requirement (consent c) of
                    Some r \<Rightarrow>
                      if \<not> accepted (consent c) then
                        issues2 @ [replace (complianceConsentPending tm) (str ''{version}'') (version r)]
                      else issues2
                  | None \<Rightarrow> issues2);
               issues4 =
                 (case coe_requirement (councilOfEurope c) of
                    Some r \<Rightarrow>
                      if version r \<noteq> [] \<and> \<not> acknowledged (councilOfEurope c) then
                        issues3 @ [replace (complianceCoePending tm) (str ''{version}'') (version r)]
                      else issues3
                  | None \<Rightarrow> issues3)
           in issues4))"

definition complianceStatusMessages :: "TrustMessages \<Rightarrow> Compliance option \<Rightarrow> jsstring list" where
  "complianceStatusMessages tm tc =
     (case tc of
        None \<Rightarrow> []
      | Some c \<Rightarrow>
          (let statuses0 = [];
               statuses1 =
                 (if friaRequired c then
                    statuses0 @ [if friaValidated c then complianceFriaValidated tm
                                 else complianceFriaPending tm]
                  else statuses0 @ [complianceFriaNotRequired tm]);
               statuses2 =
                 (case consent_requirement (consent c) of
                    Some r \<Rightarrow>
                      statuses1 @
                        [if accepted (consent c)
                         then replace (complianceConsentAcknowledged tm) (str ''{version}'') (version r)
                         else replace (complianceConsentPending tm) (str ''{version}'') (version r)]
                  | None \<Rightarrow>
                      (case latestVersion (consent c) of
                         Some v \<Rightarrow>
                           if v \<noteq> [] then
                             statuses1 @ [replace (complianceConsentAcknowledged tm) (str ''{version}'') v]
                           else statuses1
                       | None \<Rightarrow> statuses1));
               coeVersion =
                 (case coe_requirement (councilOfEurope c) of
                    Some r \<Rightarrow> if version r \<noteq> [] then Some (version r) else None
                  | None \<Rightarrow> None);
               statuses3 =
                 (case coeVersion of
                    Some v \<Rightarrow>
                      statuses2 @
                        [if acknowledged (councilOfEurope c)
                         then replace (complianceCoeAcknowledged tm) (str ''{version}'') v
                         else replace (complianceCoePending tm) (str ''{version}'') v]
                  | None \<Rightarrow>
                      (case acknowledgedVersion (councilOfEurope c) of
                         Some v \<Rightarrow>
                           if v \<noteq> [] then
                             statuses2 @ [replace (complianceCoeAcknowledged tm) (str ''{version}'') v]
                           else statuses2
                       | None \<Rightarrow> statuses2))
           in statuses3))"

text \<open>
  What the compliance block of the trust card renders (the JSX under
  \<open>trustMessages.complianceHeading\<close>): either the "unavailable" paragraph, or a report made
  of the issues (two "resolved" paragraphs when there are none, the list otherwise) and the
  status list. The list of FRIA artifacts shown below the statuses is left out.
\<close>

datatype IssuesBlock = ResolvedParagraphs jsstring jsstring | IssueList "jsstring list"

datatype ComplianceBlock = UnavailableParagraph jsstring | Report IssuesBlock "jsstring list"

definition complianceBlock ::
  "(jsstring \<rightharpoonup> jsstring) \<Rightarrow> TrustMessages \<Rightarrow> Compliance option \<Rightarrow> ComplianceBlock" where
  "complianceBlock cepejMessages tm tc =
     (case tc of
        Some c \<Rightarrow>
          Report
            (if length (complianceIssues cepejMessages tm tc) = 0
             then ResolvedParagraphs (complianceResolved tm) (complianceResolvedDetail tm)
             else IssueList (complianceIssues cepejMessages tm tc))
            (complianceStatusMessages tm tc)
      | None \<Rightarrow> UnavailableParagraph (complianceUnavailable tm))"

section \<open>Export with a signing call\<close>

record C2PASignature =
  signature :: jsstring
  keyId :: jsstring
  algorithm :: jsstring
  signedAt :: jsstring
  statementId :: jsstring

text \<open>
  The response of \<open>fetch\<close>: its \<open>ok\<close> flag, what \<open>res.text()\<close> resolves to, and how
  \<open>res.json()\<close> settles. The awaited \<open>fetch\<close> itself either rejects with a thrown value (the
  network is down, the request is blocked) or resolves with a response.
\<close>

record HttpResponse =
  res_ok :: bool
  res_text :: jsstring
  res_json :: "Thrown + C2PASignature"

type_synonym FetchResult = "Thrown + HttpResponse"

text \<open>
  An async export function settles with the lines written by \<open>console.warn\<close> and either
  the value it threw (\<open>Inl\<close>: the promise rejects) or its result.
\<close>

definition signExport :: "FetchResult \<Rightarrow> jsstring list \<times> (Thrown + C2PASignature option)" where
  "signExport fetched =
     (case fetched of
        Inl e \<Rightarrow> ([], Inl e)
      | Inr res \<Rightarrow>
          if \<not> res_ok res then ([res_text res], Inr None)
          else (case res_json res of
                  Inl e \<Rightarrow> ([], Inl e)
                | Inr p \<Rightarrow> ([], Inr (Some p))))"

datatype ExportFormat = PDF | DOCX

text \<open>
  The file handed to \<open>doc.save\<close> or \<open>saveAs\<close>: the rendering of the payload in the
  locale, with the signature whose two metadata lines are drawn when \<open>proof\<close> is not null.
\<close>

record SavedDocument =
  doc_format :: ExportFormat
  doc_payload :: IracPayload
  doc_locale :: Locale
  doc_proof :: "C2PASignature option"

definition exportIracToPdf ::
  "FetchResult \<Rightarrow> IracPayload \<Rightarrow> Locale \<Rightarrow> jsstring list \<times> (Thrown + SavedDocument)" where
  "exportIracToPdf fetched payload l =
     (case signExport fetched of
        (warnings, Inl e) \<Rightarrow> (warnings, Inl e)
      | (warnings, Inr proof) \<Rightarrow>
          (warnings,
           Inr \<lparr>doc_format = PDF, doc_payload = payload, doc_locale = l, doc_proof = proof\<rparr>))"

definition exportIracToDocx ::
  "FetchResult \<Rightarrow> IracPayload \<Rightarrow> Locale \<Rightarrow> jsstring list \<times> (Thrown + SavedDocument)" where
  "exportIracToDocx fetched payload l =
     (case signExport fetched of
        (warnings, Inl e) \<Rightarrow> (warnings, Inl e)
      | (warnings, Inr proof) \<Rightarrow>
          (warnings,
           Inr \<lparr>doc_format = DOCX, doc_payload = payload, doc_locale = l, doc_proof = proof\<rparr>))"

section \<open>Staleness\<close>

record StaleOptions =
  thresholdDays :: int
  offline :: bool

definition msPerDay :: int where
  "msPerDay = 86400000"

text \<open>
  Modelled from the spec: \<open>isDateStale\<close> (lib/staleness) is imported by the research view
  but is not among the source files. Section 4.1 of the specification: "if the date cannot
  be parsed, treat as NOT stale", "If offline, staleness determination should still execute
  against the last known wall-clock time", "A date is stale when
  \<open>now - parsedDate > thresholdDays\<close>". The date parser (\<open>None\<close> for a string that cannot be
  parsed, else milliseconds since the epoch) and the wall-clock time \<open>now\<close> in milliseconds
  are parameters.
\<close>

definition isDateStale :: "(jsstring \<Rightarrow> int option) \<Rightarrow> int \<Rightarrow> jsstring \<Rightarrow> StaleOptions \<Rightarrow> bool" where
  "isDateStale parseDate now dateString opts =
     (case parseDate dateString of
        None \<Rightarrow> False
      | Some parsed \<Rightarrow> now - parsed > thresholdDays opts * msPerDay)"

definition staleThresholdDays :: int where
  "staleThresholdDays = 90"

definition isCitationStale :: "(jsstring \<Rightarrow> int option) \<Rightarrow> int \<Rightarrow> bool \<Rightarrow> jsstring \<Rightarrow> bool" where
  "isCitationStale parseDate now online d =
     isDateStale parseDate now d \<lparr>thresholdDays = staleThresholdDays, offline = \<not> online\<rparr>"

section \<open>Concrete inputs\<close>

definition example_env :: ViewEnv where
  "example_env =
     \<lparr>view_locale = FR,
      outboxMessages =
        \<lparr>queued = str ''Question mise en file'',
         sent = Some (str ''Question transmise''),
         stillOffline = str ''Toujours hors ligne''\<rparr>,
      agentOptions =
        [\<lparr>option_key = str ''counsel_research'',
          option_code = str ''conseil_recherche'',
          option_label = str ''Conseil recherche'',
          option_mission = []\<rparr>],
      DEMO_ORG_ID = str ''org-demo'',
      DEMO_USER_ID = str ''user-demo''\<rparr>"

definition example_state :: ViewState where
  "example_state =
     \<lparr>question = str ''Quelle est la prescription applicable ?'',
      contextText = str ''Bail commercial'',
      ohadaMode = True,
      euOverlay = True,
      confidentialMode = False,
      agentCode = str ''conseil_recherche'',
      latestRun = None,
      planOpen = False,
      outbox = \<lparr>items = [], nextId = 0\<rparr>,
      toasts = [],
      telemetry = [],
      agentCalls = [],
      runSuccessEvents = 0\<rparr>"

definition example_confidential_state :: ViewState where
  "example_confidential_state = example_state\<lparr>confidentialMode := True\<rparr>"

definition example_confidential_item :: OutboxItem where
  "example_confidential_item =
     \<lparr>item_id = 0,
      item_question = str ''Quelle est la prescription applicable ?'',
      item_context = str ''Bail commercial'',
      item_confidentialMode = True,
      item_agentCode = str ''conseil_recherche'',
      item_agentLabel = str ''Conseil recherche'',
      item_agentSettings = None\<rparr>"

definition example_payload :: IracPayload where
  "example_payload =
     \<lparr>jurisdiction = \<lparr>country = str ''FR'', eu = True, ohada = False\<rparr>,
      issue = str ''Prescription'',
      rules = [],
      application = str ''Application'',
      conclusion = str ''Conclusion'',
      citations = [],
      risk = \<lparr>level = HIGH, why = str ''Incertitude'', hitl_required = True\<rparr>\<rparr>"

definition example_run :: AgentRunResponse where
  "example_run =
     \<lparr>runId = str ''run-1'',
      agent = Some \<lparr>agent_code = str ''conseil_recherche'', agent_label = str ''Conseil recherche''\<rparr>,
      run_data = Some example_payload,
      verification = None,
      trustPanel = None\<rparr>"

text \<open>
  A run without a trust panel whose verification lists four violations: two well-formed
  URLs of one host, between them a string that is not a URL and the empty string.
\<close>

definition example_violations_run :: AgentRunResponse where
  "example_violations_run =
     example_run\<lparr>verification :=
       Some \<lparr>allowlistViolations =
               [str ''https://blog.example.com/post'', str ''not a url'', [],
                str ''https://blog.example.com/autre'']\<rparr>\<rparr>"

definition example_empty_violation_run :: AgentRunResponse where
  "example_empty_violation_run =
     example_run\<lparr>verification := Some \<lparr>allowlistViolations = [[]]\<rparr>\<rparr>"

text \<open>
  The URL parser on the strings used above: the two \<open>https\<close> URLs parse, with host
  \<open>blog.example.com\<close>; the constructor throws on every other string, among them
  \<open>not a url\<close> and the empty string.
\<close>

definition example_hostname :: UrlParser where
  "example_hostname u =
     (if u = str ''https://blog.example.com/post'' \<or> u = str ''https://blog.example.com/autre''
      then Some (str ''blog.example.com'') else None)"

definition example_trustMessages :: TrustMessages where
  "example_trustMessages =
     \<lparr>msg_allowlistClean = str ''Sources conformes'',
      msg_allowlistIssues = str ''Sources hors liste'',
      complianceFria = str ''FRIA requise : {reason}'',
      complianceFriaFallback = str ''motif non precise'',
      complianceCepej = str ''CEPEJ : {detail}'',
      complianceCepejFallback = str ''violation non precisee'',
      complianceConsentPending = str ''Consentement {version} en attente'',
      complianceConsentAcknowledged = str ''Consentement {version} accepte'',
      complianceCoePending = str ''Traite CoE {version} en attente'',
      complianceCoeAcknowledged = str ''Traite CoE {version} reconnu'',
      complianceFriaValidated = str ''FRIA validee'',
      complianceFriaPending = str ''FRIA en attente'',
      complianceFriaNotRequired = str ''FRIA non requise'',
      complianceResolved = str ''Conforme'',
      complianceResolvedDetail = str ''Aucune action requise'',
      complianceUnavailable = str ''Indisponible''\<rparr>"

definition example_cepejMessages :: "jsstring \<rightharpoonup> jsstring" where
  "example_cepejMessages code =
     (if code = str ''transparency'' then Some (str ''Transparence'') else None)"

definition example_compliance :: Compliance where
  "example_compliance =
     \<lparr>friaRequired = True,
      friaValidated = False,
      friaReasons = [str ''risque eleve'', str ''autre motif''],
      cepejPassed = False,
      cepejViolations = [str ''transparency'', str ''inconnu''],
      consent = \<lparr>consent_requirement = Some \<lparr>version = str ''v2''\<rparr>, accepted = False,
                 latestVersion = None\<rparr>,
      councilOfEurope = \<lparr>coe_requirement = Some \<lparr>version = str ''2024''\<rparr>, acknowledged = False,
                         acknowledgedVersion = None\<rparr>\<rparr>"

text \<open>
  A date parser defined on two strings, and a clock: 1 April 2024 is 91 days after
  1 January 2024 and 10 days after 22 March 2024 (all at 00:00 UTC).
\<close>

definition example_parseDate :: "jsstring \<Rightarrow> int option" where
  "example_parseDate d =
     (if d = str ''2024-01-01'' then Some 1704067200000
      else if d = str ''2024-03-22'' then Some 1711065600000
      else None)"

definition example_now :: int where
  "example_now = 1711929600000"

section \<open>Auxiliary facts\<close>

lemmas effect_defs = toast_show_def sendTelemetryEvent_def mutateAsync_def setLatestRun_def
  toggle_def dispatchRunSuccess_def enqueueOutbox_def enqueue_def removeOutbox_def remove_def

lemmas trust_view_defs = view_trustPanel_def trustCitationSummary_def trustRisk_def
  trustCompliance_def view_verification_def view_allowlistViolations_def

lemmas example_defs = example_env_def example_state_def example_confidential_state_def
  example_confidential_item_def example_payload_def example_run_def

text \<open>The guard \<open>!question.trim()\<close> holds exactly for a question made of whitespace only.\<close>

lemma trim_eq_Nil_iff: "trim s = [] \<longleftrightarrow> list_all isWhiteSpace s"
proof -
  have "trim s = [] \<longleftrightarrow> (\<forall>c \<in> set (dropWhile isWhiteSpace s). isWhiteSpace c)"
    by (simp add: trim_def)
  also have "\<dots> \<longleftrightarrow> dropWhile isWhiteSpace s = []"
  proof (cases "dropWhile isWhiteSpace s")
    case Nil
    then show ?thesis by (simp del: dropWhile_eq_Nil_conv)
  next
    case (Cons c cs)
    then have "\<not> isWhiteSpace c"
      using hd_dropWhile [of isWhiteSpace s] by simp
    with Cons show ?thesis by auto
  qed
  also have "\<dots> \<longleftrightarrow> list_all isWhiteSpace s"
    by (simp add: list_all_iff)
  finally show ?thesis .
qed

text \<open>\<open>Array.from(new Set(xs))\<close> keeps one copy of each value, at its first position.\<close>

lemma setAddAll_set: "set (setAddAll seen xs) = set seen \<union> set xs"
  by (induction xs arbitrary: seen) auto

lemma setAddAll_distinct: "distinct seen \<Longrightarrow> distinct (setAddAll seen xs)"
  by (induction xs arbitrary: seen) auto

lemma remdups_drop_repeated: "x \<in> set bs \<Longrightarrow> remdups (as @ x # bs) = remdups (as @ bs)"
  by (induction as) auto

lemma setAddAll_first_occurrences:
  "distinct seen \<Longrightarrow> setAddAll seen xs = rev (remdups (rev (seen @ xs)))"
proof (induction xs arbitrary: seen)
  case Nil
  then show ?case by (simp add: distinct_remdups_id)
next
  case (Cons x xs)
  show ?case
  proof (cases "x \<in> set seen")
    case True
    then have "remdups (rev xs @ x # rev seen) = remdups (rev xs @ rev seen)"
      by (simp add: remdups_drop_repeated)
    with True Cons show ?thesis by simp
  next
    case False
    with Cons.prems have "distinct (seen @ [x])" by simp
    from Cons.IH [OF this] False show ?thesis by simp
  qed
qed

lemma arrayFromSet_first_occurrences: "arrayFromSet xs = rev (remdups (rev xs))"
  using setAddAll_first_occurrences [of "[]" xs] by (simp add: arrayFromSet_def)

lemma arrayFromSet_distinct: "distinct (arrayFromSet xs)"
  by (simp add: arrayFromSet_def setAddAll_distinct)

lemma arrayFromSet_set: "set (arrayFromSet xs) = set xs"
  by (simp add: arrayFromSet_def setAddAll_set)

lemma fallbackViolationHosts_eq:
  "fallbackViolationHosts hostname vs =
     arrayFromSet (filter (\<lambda>h. h \<noteq> []) (map (hostnameOrUrl hostname) vs))"
  by (simp add: fallbackViolationHosts_def arrayFromSet_def)

lemma example_question_not_blank: "\<not> list_all isWhiteSpace (question example_state)"
  by (simp add: example_state_def str_def isWhiteSpace_def)

lemma example_confidential_question_not_blank:
  "\<not> list_all isWhiteSpace (question example_confidential_state)"
  by (simp add: example_state_def example_confidential_state_def str_def isWhiteSpace_def)

section \<open>Submission: the offline path and the failed remote call\<close>

text \<open>
  Claim C1. A submission whose question is not blank, made while offline, appends to the
  outbox one item carrying the submitted question, context, confidential flag and agent
  code, so that the outbox grows by exactly one; it clears the question and context
  fields, calls the remote agent not at all, shows one informational toast and no error
  toast, and leaves the latest run alone. The outcome of a remote call plays no part.
  The one thing it sends is the telemetry event \<open>outbox_enqueued\<close>, and only when the
  view is not in confidential mode.
\<close>

theorem offline_submission_queued:
  assumes "\<not> list_all isWhiteSpace (question s)"
  shows "items (outbox (onSubmit env False outcome s)) =
           items (outbox s) @
             [\<lparr>item_id = nextId (outbox s),
               item_question = question s,
               item_context = contextText s,
               item_confidentialMode = confidentialMode s,
               item_agentCode = agentCode s,
               item_agentLabel = draft_agentLabel (currentDraft env s),
               item_agentSettings = None\<rparr>]
    \<and> length (items (outbox (onSubmit env False outcome s))) = length (items (outbox s)) + 1
    \<and> question (onSubmit env False outcome s) = []
    \<and> contextText (onSubmit env False outcome s) = []
    \<and> agentCalls (onSubmit env False outcome s) = agentCalls s
    \<and> toasts (onSubmit env False outcome s) =
          toasts s @
            [\<lparr>toast_kind = ToastInfo, toast_message = queued (outboxMessages env),
              toast_key = None\<rparr>]
    \<and> latestRun (onSubmit env False outcome s) = latestRun s
    \<and> telemetry (onSubmit env False outcome s) =
          (if confidentialMode s then telemetry s
           else telemetry s @
                  [\<lparr>eventName = ''outbox_enqueued'',
                    properties = [(''offline'', JBool True), (''agent'', JStr (agentCode s))]\<rparr>])"
  using assms
  by (simp add: onSubmit_def trim_eq_Nil_iff Let_def effect_defs currentDraft_def
      telemetryEnabled_def)

theorem offline_submission_queued_witness:
  "\<not> list_all isWhiteSpace (question example_state)
   \<and> items (outbox (onSubmit example_env False (Inr example_run) example_state)) =
       [\<lparr>item_id = 0,
         item_question = str ''Quelle est la prescription applicable ?'',
         item_context = str ''Bail commercial'',
         item_confidentialMode = False,
         item_agentCode = str ''conseil_recherche'',
         item_agentLabel = str ''Conseil recherche'',
         item_agentSettings = None\<rparr>]
   \<and> question (onSubmit example_env False (Inr example_run) example_state) = []
   \<and> contextText (onSubmit example_env False (Inr example_run) example_state) = []
   \<and> agentCalls (onSubmit example_env False (Inr example_run) example_state) = []
   \<and> toasts (onSubmit example_env False (Inr example_run) example_state) =
       [\<lparr>toast_kind = ToastInfo, toast_message = str ''Question mise en file'', toast_key = None\<rparr>]
   \<and> latestRun (onSubmit example_env False (Inr example_run) example_state) = None
   \<and> map eventName (telemetry (onSubmit example_env False (Inr example_run) example_state)) =
       [''outbox_enqueued'']"
  using example_question_not_blank
    offline_submission_queued [OF example_question_not_blank,
      where env = example_env and outcome = "Inr example_run"]
  by (simp add: example_defs currentDraft_def selectedAgent_def str_def)

text \<open>
  Claim C2, as amended. An online submission whose remote call is rejected with a thrown
  value \<open>e\<close> sends one request and appends to the outbox an item with the same question,
  context, confidential flag and agent code as that request. It shows an error toast whose
  text is the message of \<open>e\<close> whenever \<open>e\<close> is an \<open>Error\<close> instance, an empty message
  included, and \<open>Agent indisponible\<close> only when \<open>e\<close> is not an \<open>Error\<close> instance; the
  informational toast of the queue follows.
\<close>

theorem failed_submission_queued_and_reported:
  assumes "\<not> list_all isWhiteSpace (question s)"
  shows "items (outbox (onSubmit env True (Inl e) s)) =
           items (outbox s) @
             [\<lparr>item_id = nextId (outbox s),
               item_question = question s,
               item_context = contextText s,
               item_confidentialMode = confidentialMode s,
               item_agentCode = agentCode s,
               item_agentLabel = draft_agentLabel (currentDraft env s),
               item_agentSettings = None\<rparr>]
    \<and> agentCalls (onSubmit env True (Inl e) s) =
           agentCalls s @
             [\<lparr>req_question = question s,
               req_context = contextText s,
               req_orgId = DEMO_ORG_ID env,
               req_userId = DEMO_USER_ID env,
               req_confidentialMode = confidentialMode s,
               req_agentCode = agentCode s,
               req_agentSettings = None\<rparr>]
    \<and> toasts (onSubmit env True (Inl e) s) =
           toasts s @
             [\<lparr>toast_kind = ToastError,
               toast_message =
                 (case e of ErrorInstance m \<Rightarrow> m | NotAnError \<Rightarrow> str ''Agent indisponible''),
               toast_key = None\<rparr>,
              \<lparr>toast_kind = ToastInfo, toast_message = queued (outboxMessages env),
               toast_key = None\<rparr>]"
  using assms
  by (simp add: onSubmit_def trim_eq_Nil_iff Let_def effect_defs currentDraft_def errorMessage_def)

theorem failed_submission_queued_and_reported_witness:
  "\<not> list_all isWhiteSpace (question example_state)
   \<and> map item_question
       (items (outbox (onSubmit example_env True (Inl (ErrorInstance (str ''HTTP 503''))) example_state))) =
       [str ''Quelle est la prescription applicable ?'']
   \<and> map req_question
       (agentCalls (onSubmit example_env True (Inl (ErrorInstance (str ''HTTP 503''))) example_state)) =
       [str ''Quelle est la prescription applicable ?'']
   \<and> map toast_message
       (toasts (onSubmit example_env True (Inl (ErrorInstance (str ''HTTP 503''))) example_state)) =
       [str ''HTTP 503'', str ''Question mise en file'']
   \<and> map toast_message (toasts (onSubmit example_env True (Inl NotAnError) example_state)) =
       [str ''Agent indisponible'', str ''Question mise en file'']"
  using example_question_not_blank
    failed_submission_queued_and_reported [OF example_question_not_blank,
      where env = example_env and e = "ErrorInstance (str ''HTTP 503'')"]
    failed_submission_queued_and_reported [OF example_question_not_blank,
      where env = example_env and e = NotAnError]
  by (simp add: example_defs str_def)

text \<open>
  The claim as it was stated has the fallback shown whenever the error carries no message.
  For the rejection \<open>new Error('')\<close>, an \<open>Error\<close> instance whose message is empty, the
  request is queued as claimed, but the error toast is the empty string and not the
  fallback text.
\<close>

theorem empty_error_message_shown_without_fallback:
  "\<not> list_all isWhiteSpace (question example_state)
   \<and> map item_question
       (items (outbox (onSubmit example_env True (Inl (ErrorInstance [])) example_state))) =
       [str ''Quelle est la prescription applicable ?'']
   \<and> toasts (onSubmit example_env True (Inl (ErrorInstance [])) example_state) =
       [\<lparr>toast_kind = ToastError, toast_message = [], toast_key = None\<rparr>,
        \<lparr>toast_kind = ToastInfo, toast_message = str ''Question mise en file'',
         toast_key = None\<rparr>]
   \<and> str ''Agent indisponible'' \<noteq> []"
  by (simp add: onSubmit_def trim_eq_Nil_iff Let_def effect_defs currentDraft_def
      selectedAgent_def telemetryEnabled_def errorMessage_def example_defs str_def
      isWhiteSpace_def)

section \<open>Outbox items of confidential requests\<close>

text \<open>
  Claim C3. For an outbox item flagged confidential, the sender called by the automatic
  flush (\<open>source = Auto\<close>) returns false and changes nothing: no remote call is made and
  the outbox still holds the item. Called for a manual retry it sends the item's request,
  and so does the retry button's handler when the view is online.
\<close>

theorem confidential_item_auto_skipped_manual_sent:
  assumes "item_confidentialMode item"
  shows "processOutboxItem env item Auto outcome s = (False, s)
    \<and> agentCalls (snd (processOutboxItem env item Manual outcome s)) =
        agentCalls s @ [itemRequest env item]
    \<and> fst (processOutboxItem env item Manual outcome s) =
        (case outcome of Inl e \<Rightarrow> False | Inr d \<Rightarrow> True)
    \<and> agentCalls (handleOutboxRetry env True item outcome s) =
        agentCalls s @ [itemRequest env item]"
  using assms
  by (simp add: processOutboxItem_def handleOutboxRetry_def Let_def effect_defs split: sum.splits)

theorem confidential_item_auto_skipped_manual_sent_witness:
  "item_confidentialMode example_confidential_item
   \<and> processOutboxItem example_env example_confidential_item Auto (Inr example_run) example_state =
       (False, example_state)
   \<and> map req_question
       (agentCalls (snd (processOutboxItem example_env example_confidential_item Manual
          (Inr example_run) example_state))) =
       [str ''Quelle est la prescription applicable ?'']
   \<and> fst (processOutboxItem example_env example_confidential_item Manual (Inr example_run)
        example_state)
   \<and> map req_confidentialMode
       (agentCalls (handleOutboxRetry example_env True example_confidential_item (Inr example_run)
          example_state)) = [True]"
proof -
  have h: "item_confidentialMode example_confidential_item"
    by (simp add: example_confidential_item_def)
  from h confidential_item_auto_skipped_manual_sent [OF h,
      where env = example_env and outcome = "Inr example_run" and s = example_state]
  show ?thesis
    by (simp add: example_defs itemRequest_def str_def)
qed

section \<open>The allowlist summary\<close>

text \<open>
  Claim C4, as amended. The summary is clean exactly when the list it is read from is
  empty: the non-allowlisted citations of the citation summary when the trust panel has
  one, the verification's allowlist violations otherwise. In the second case the detail
  list is the fallback list, which maps every violation to its hostname when the URL
  parses and to the raw string when it does not, then drops the empty results, and keeps
  one copy of each remaining value, at its first position.
\<close>

theorem allowlist_clean_and_fallback_hosts:
  "allowlistClean run =
     (case trustCitationSummary run of
        Some c \<Rightarrow> nonAllowlisted c = []
      | None \<Rightarrow> view_allowlistViolations run = [])
   \<and> (case trustCitationSummary run of
        Some c \<Rightarrow> True
      | None \<Rightarrow> allowlistDetails hostname run =
                  fallbackViolationHosts hostname (view_allowlistViolations run))
   \<and> fallbackViolationHosts hostname vs =
        rev (remdups (rev (filter (\<lambda>h. h \<noteq> []) (map (hostnameOrUrl hostname) vs))))
   \<and> distinct (fallbackViolationHosts hostname vs)
   \<and> set (fallbackViolationHosts hostname vs) = hostnameOrUrl hostname ` set vs - {[]}
   \<and> hostnameOrUrl hostname u = (case hostname u of Some h \<Rightarrow> h | None \<Rightarrow> u)"
proof -
  have clean: "allowlistClean run =
     (case trustCitationSummary run of
        Some c \<Rightarrow> nonAllowlisted c = []
      | None \<Rightarrow> view_allowlistViolations run = [])"
    by (simp add: allowlistClean_def split: option.splits)
  have details: "(case trustCitationSummary run of
        Some c \<Rightarrow> True
      | None \<Rightarrow> allowlistDetails hostname run =
                  fallbackViolationHosts hostname (view_allowlistViolations run))"
    by (simp add: allowlistDetails_def split: option.splits)
  have hosts: "set (fallbackViolationHosts hostname vs) = hostnameOrUrl hostname ` set vs - {[]}"
    by (auto simp: fallbackViolationHosts_eq arrayFromSet_set)
  show ?thesis
    using clean details hosts
    by (simp add: fallbackViolationHosts_eq arrayFromSet_first_occurrences [symmetric]
        arrayFromSet_distinct hostnameOrUrl_def)
qed

theorem allowlist_clean_and_fallback_hosts_witness:
  "view_allowlistViolations (Some example_violations_run) =
     [str ''https://blog.example.com/post'', str ''not a url'', [],
      str ''https://blog.example.com/autre'']
   \<and> allowlistDetails example_hostname (Some example_violations_run) =
     [str ''blog.example.com'', str ''not a url'']
   \<and> \<not> allowlistClean (Some example_violations_run)
   \<and> allowlistClean (Some example_run)
   \<and> allowlistDetails example_hostname (Some example_run) = []"
  using allowlist_clean_and_fallback_hosts
      [where run = "Some example_violations_run" and hostname = example_hostname]
    allowlist_clean_and_fallback_hosts
      [where run = "Some example_run" and hostname = example_hostname]
  by (simp add: trust_view_defs example_violations_run_def example_run_def
      example_hostname_def str_def fallbackViolationHosts_def arrayFromSet_def hostnameOrUrl_def)

text \<open>
  The claim as it was stated has the fallback list keep every mapped value. For a run
  whose only violation is the empty string, which is not a URL, the summary is not clean
  and the mapped values are the one empty string, yet the detail list is empty.
\<close>

theorem empty_violation_dropped_from_details:
  "view_allowlistViolations (Some example_empty_violation_run) = [[]]
   \<and> trustCitationSummary (Some example_empty_violation_run) = None
   \<and> example_hostname [] = None
   \<and> \<not> allowlistClean (Some example_empty_violation_run)
   \<and> arrayFromSet (map (hostnameOrUrl example_hostname)
        (view_allowlistViolations (Some example_empty_violation_run))) = [[]]
   \<and> allowlistDetails example_hostname (Some example_empty_violation_run) = []"
  by (simp add: trust_view_defs example_empty_violation_run_def example_run_def
      example_hostname_def str_def allowlistClean_def allowlistDetails_def
      fallbackViolationHosts_def arrayFromSet_def hostnameOrUrl_def)

section \<open>Compliance issues\<close>

text \<open>
  Claim C5. The issues are, in this order and each only when its condition holds: the
  FRIA issue (required and not validated; its text carries the first listed reason, or
  the fallback when no reason is listed), the CEPEJ issue (not passed; its text carries
  the translated violation codes joined by a bullet, or the fallback when no code is
  listed), the consent issue (a requirement is present and not accepted; its text carries
  the requirement's version) and the Council of Europe issue (the requirement has a
  version and is not acknowledged; its text carries that version). Without compliance
  data the list is empty and the block renders the "unavailable" paragraph, which differs
  from every report, the "resolved" one included.
\<close>

theorem complianceIssues_fixed_order:
  "complianceIssues cm tm None = []
   \<and> complianceBlock cm tm None = UnavailableParagraph (complianceUnavailable tm)
   \<and> complianceBlock cm tm None \<noteq> complianceBlock cm tm (Some c)
   \<and> complianceBlock cm tm (Some c) =
       Report
         (if complianceIssues cm tm (Some c) = []
          then ResolvedParagraphs (complianceResolved tm) (complianceResolvedDetail tm)
          else IssueList (complianceIssues cm tm (Some c)))
         (complianceStatusMessages tm (Some c))
   \<and> complianceIssues cm tm (Some c) =
       (if friaRequired c \<and> \<not> friaValidated c
        then [replace (complianceFria tm) (str ''{reason}'')
                (case friaReasons c of [] \<Rightarrow> complianceFriaFallback tm | r # rs \<Rightarrow> r)]
        else [])
       @ (if \<not> cepejPassed c
          then [replace (complianceCepej tm) (str ''{detail}'')
                  (if cepejViolations c = [] then complianceCepejFallback tm
                   else join [32, 8226, 32]
                          (map (\<lambda>code. case cm code of
                                          Some m \<Rightarrow> m
                                        | None \<Rightarrow> complianceCepejFallback tm)
                               (cepejViolations c)))]
          else [])
       @ (case consent_requirement (consent c) of
            Some r \<Rightarrow>
              if accepted (consent c) then []
              else [replace (complianceConsentPending tm) (str ''{version}'') (version r)]
          | None \<Rightarrow> [])
       @ (case coe_requirement (councilOfEurope c) of
            Some r \<Rightarrow>
              if version r \<noteq> [] \<and> \<not> acknowledged (councilOfEurope c)
              then [replace (complianceCoePending tm) (str ''{version}'') (version r)]
              else []
          | None \<Rightarrow> [])"
  by (simp add: complianceIssues_def complianceBlock_def Let_def split: option.splits)

theorem complianceIssues_fixed_order_witness:
  "complianceIssues example_cepejMessages example_trustMessages (Some example_compliance) =
     [str ''FRIA requise : risque eleve'',
      str ''CEPEJ : Transparence '' @ [8226] @ str '' violation non precisee'',
      str ''Consentement v2 en attente'',
      str ''Traite CoE 2024 en attente'']
   \<and> complianceIssues example_cepejMessages example_trustMessages
       (Some (example_compliance\<lparr>friaValidated := True, cepejPassed := True\<rparr>)) =
     [str ''Consentement v2 en attente'', str ''Traite CoE 2024 en attente'']
   \<and> complianceIssues example_cepejMessages example_trustMessages
       (Some (example_compliance\<lparr>friaReasons := [], cepejViolations := []\<rparr>)) =
     [str ''FRIA requise : motif non precise'',
      str ''CEPEJ : violation non precisee'',
      str ''Consentement v2 en attente'',
      str ''Traite CoE 2024 en attente'']
   \<and> complianceBlock example_cepejMessages example_trustMessages None =
     UnavailableParagraph (str ''Indisponible'')"
  using complianceIssues_fixed_order
      [where cm = example_cepejMessages and tm = example_trustMessages and c = example_compliance]
    complianceIssues_fixed_order
      [where cm = example_cepejMessages and tm = example_trustMessages
         and c = "example_compliance\<lparr>friaValidated := True, cepejPassed := True\<rparr>"]
    complianceIssues_fixed_order
      [where cm = example_cepejMessages and tm = example_trustMessages
         and c = "example_compliance\<lparr>friaReasons := [], cepejViolations := []\<rparr>"]
  by (simp add: example_compliance_def example_trustMessages_def example_cepejMessages_def
      replace_def str_def)

section \<open>The latest run\<close>

text \<open>
  Claim C6. The latest run changes only where a remote call succeeded: in \<open>onSubmit\<close>
  when the question is not blank, the view is online and the call resolves; in
  \<open>processOutboxItem\<close> when the sender returns true; in the retry handler when the view is
  online and the call resolves. After a validation failure, an offline submission, a
  rejected call or an outbox item that was not sent, it is what it was. Every such write
  is the one \<open>setLatestRun\<close> makes, which stores the run received.
\<close>

theorem latestRun_written_only_on_success:
  "latestRun (onSubmit env online outcome s) =
     (case outcome of
        Inl e \<Rightarrow> latestRun s
      | Inr d \<Rightarrow> if \<not> list_all isWhiteSpace (question s) \<and> online
                 then latestRun (setLatestRun d s) else latestRun s)
   \<and> latestRun (snd (processOutboxItem env item source outcome s)) =
     (case outcome of
        Inl e \<Rightarrow> latestRun s
      | Inr d \<Rightarrow> if fst (processOutboxItem env item source outcome s)
                 then latestRun (setLatestRun d s) else latestRun s)
   \<and> latestRun (handleOutboxRetry env online item outcome s) =
     (case outcome of
        Inl e \<Rightarrow> latestRun s
      | Inr d \<Rightarrow> if online then latestRun (setLatestRun d s) else latestRun s)
   \<and> latestRun (setLatestRun r s) = Some r"
  by (simp add: onSubmit_def processOutboxItem_def handleOutboxRetry_def trim_eq_Nil_iff Let_def
      effect_defs split: sum.splits)

theorem latestRun_written_only_on_success_witness:
  "latestRun (onSubmit example_env True (Inr example_run) example_state) = Some example_run
   \<and> latestRun (onSubmit example_env True (Inl NotAnError) example_state) = None
   \<and> latestRun (onSubmit example_env False (Inr example_run) example_state) = None
   \<and> latestRun (onSubmit example_env True (Inr example_run) (example_state\<lparr>question := [32]\<rparr>)) = None
   \<and> latestRun (snd (processOutboxItem example_env example_confidential_item Auto
        (Inr example_run) example_state)) = None
   \<and> latestRun (snd (processOutboxItem example_env example_confidential_item Manual
        (Inl NotAnError) example_state)) = None
   \<and> latestRun (snd (processOutboxItem example_env example_confidential_item Manual
        (Inr example_run) example_state)) = Some example_run"
  using latestRun_written_only_on_success
      [where env = example_env and online = True and outcome = "Inr example_run"
         and s = example_state and item = example_confidential_item and source = Manual]
    latestRun_written_only_on_success
      [where env = example_env and online = True and outcome = "Inl NotAnError"
         and s = example_state and item = example_confidential_item and source = Manual]
    latestRun_written_only_on_success
      [where env = example_env and online = False and outcome = "Inr example_run"
         and s = example_state and item = example_confidential_item and source = Auto]
    latestRun_written_only_on_success
      [where env = example_env and online = True and outcome = "Inr example_run"
         and s = "example_state\<lparr>question := [32]\<rparr>" and item = example_confidential_item
         and source = Auto]
  by (simp add: example_state_def example_confidential_item_def processOutboxItem_def
      setLatestRun_def str_def isWhiteSpace_def Let_def)

section \<open>Telemetry of confidential requests\<close>

text \<open>
  Claim C7. A submission made in confidential mode sends no telemetry event, whether it
  is rejected for a blank question, queued offline, answered or failed; every item it adds
  to the outbox is flagged confidential; and processing an item flagged confidential,
  by the automatic flush or by a manual retry, with any outcome and in any later state of
  the view, sends no telemetry event either.
\<close>

theorem confidential_request_sends_no_telemetry:
  "(confidentialMode s \<longrightarrow>
      telemetry (onSubmit env online outcome s) = telemetry s \<and>
      list_all item_confidentialMode
        (drop (length (items (outbox s))) (items (outbox (onSubmit env online outcome s)))))
   \<and> (item_confidentialMode item \<longrightarrow>
      telemetry (snd (processOutboxItem envR item source outcomeR sR)) = telemetry sR \<and>
      telemetry (handleOutboxRetry envR onlineR item outcomeR sR) = telemetry sR)"
  by (simp add: onSubmit_def processOutboxItem_def handleOutboxRetry_def telemetryEnabled_def
      Let_def effect_defs currentDraft_def split: sum.splits)

theorem confidential_request_sends_no_telemetry_witness:
  "confidentialMode example_confidential_state
   \<and> telemetry (onSubmit example_env True (Inl NotAnError) example_confidential_state) = []
   \<and> items (outbox (onSubmit example_env True (Inl NotAnError) example_confidential_state)) =
       [example_confidential_item]
   \<and> item_confidentialMode example_confidential_item
   \<and> \<not> confidentialMode example_state
   \<and> telemetry (snd (processOutboxItem example_env example_confidential_item Manual
        (Inr example_run) example_state)) = []
   \<and> telemetry (handleOutboxRetry example_env True example_confidential_item
        (Inr example_run) example_state) = []
   \<and> map eventName (telemetry (onSubmit example_env True (Inl NotAnError) example_state)) =
       [''run_submitted'', ''run_failed'', ''outbox_enqueued'']"
proof -
  have items: "items (outbox (onSubmit example_env True (Inl NotAnError) example_confidential_state)) =
       [example_confidential_item]"
    by (simp add: onSubmit_def trim_eq_Nil_iff Let_def effect_defs currentDraft_def
        selectedAgent_def telemetryEnabled_def errorMessage_def example_defs str_def
        isWhiteSpace_def)
  have events: "map eventName (telemetry (onSubmit example_env True (Inl NotAnError) example_state)) =
       [''run_submitted'', ''run_failed'', ''outbox_enqueued'']"
    by (simp add: onSubmit_def trim_eq_Nil_iff Let_def effect_defs telemetryEnabled_def
        example_state_def str_def isWhiteSpace_def)
  show ?thesis
    using items events
      confidential_request_sends_no_telemetry
        [where s = example_confidential_state and env = example_env and online = True
           and outcome = "Inl NotAnError" and item = example_confidential_item
           and envR = example_env and source = Manual and outcomeR = "Inr example_run"
           and sR = example_state and onlineR = True]
    by (simp add: example_state_def example_confidential_state_def example_confidential_item_def)
qed

section \<open>Export when the signing call fails\<close>

text \<open>
  Claim C8. The claim has every export complete without a signature block when the
  signing call fails. The exports do so when the signing service answers with a status
  that is not ok. When the awaited \<open>fetch\<close> rejects, or the body of an ok answer is not
  JSON, \<open>signExport\<close> throws, and both exports rethrow before any file is saved and
  without a warning logged.
\<close>

theorem rejected_sign_call_aborts_export:
  "exportIracToPdf (Inl e) payload l = ([], Inl e)
   \<and> exportIracToDocx (Inl e) payload l = ([], Inl e)
   \<and> exportIracToPdf (Inr \<lparr>res_ok = True, res_text = body, res_json = Inl e\<rparr>) payload l =
       ([], Inl e)
   \<and> exportIracToDocx (Inr \<lparr>res_ok = True, res_text = body, res_json = Inl e\<rparr>) payload l =
       ([], Inl e)"
  by (simp add: exportIracToPdf_def exportIracToDocx_def signExport_def)

text \<open>
  The path that does complete: when the signing service answers with a status that is not
  ok, the body of the answer is logged as a warning and the file is saved with no
  signature.
\<close>

lemma unsigned_export_when_status_not_ok:
  "exportIracToPdf (Inr \<lparr>res_ok = False, res_text = body, res_json = j\<rparr>) payload l =
     ([body], Inr \<lparr>doc_format = PDF, doc_payload = payload, doc_locale = l, doc_proof = None\<rparr>)
   \<and> exportIracToDocx (Inr \<lparr>res_ok = False, res_text = body, res_json = j\<rparr>) payload l =
     ([body], Inr \<lparr>doc_format = DOCX, doc_payload = payload, doc_locale = l, doc_proof = None\<rparr>)"
  by (simp add: exportIracToPdf_def exportIracToDocx_def signExport_def)

section \<open>Staleness of a citation date\<close>

text \<open>
  Claim C9. \<open>isDateStale\<close> answers false for a date string that cannot be parsed, the
  empty string among them when the parser rejects it; for a date that parses it answers
  true exactly when the time elapsed since that date exceeds the threshold in days, so
  that with a threshold of 90 a date 91 days old is stale and a date 10 days old is not;
  the offline flag does not change the answer. It is a function of its arguments.
\<close>

theorem isDateStale_spec:
  "(parseDate da = None \<longrightarrow> \<not> isDateStale parseDate now da opts)
   \<and> (parseDate [] = None \<longrightarrow> \<not> isDateStale parseDate now [] opts)
   \<and> (parseDate db = Some t \<longrightarrow>
        isDateStale parseDate now db opts = (now - t > thresholdDays opts * msPerDay))
   \<and> (parseDate dc = Some (now - 91 * msPerDay) \<longrightarrow>
        isDateStale parseDate now dc \<lparr>thresholdDays = 90, offline = off\<rparr>)
   \<and> (parseDate dd = Some (now - 10 * msPerDay) \<longrightarrow>
        \<not> isDateStale parseDate now dd \<lparr>thresholdDays = 90, offline = off\<rparr>)
   \<and> isDateStale parseDate now de (opts\<lparr>offline := off\<rparr>) = isDateStale parseDate now de opts"
  by (simp add: isDateStale_def msPerDay_def split: option.splits)

theorem isDateStale_spec_witness:
  "example_parseDate (str ''sans date'') = None
   \<and> \<not> isDateStale example_parseDate example_now (str ''sans date'')
         \<lparr>thresholdDays = 90, offline = False\<rparr>
   \<and> example_parseDate [] = None
   \<and> \<not> isDateStale example_parseDate example_now [] \<lparr>thresholdDays = 90, offline = False\<rparr>
   \<and> example_parseDate (str ''2024-01-01'') = Some (example_now - 91 * msPerDay)
   \<and> isDateStale example_parseDate example_now (str ''2024-01-01'')
         \<lparr>thresholdDays = 90, offline = False\<rparr>
   \<and> example_parseDate (str ''2024-03-22'') = Some (example_now - 10 * msPerDay)
   \<and> \<not> isDateStale example_parseDate example_now (str ''2024-03-22'')
         \<lparr>thresholdDays = 90, offline = False\<rparr>
   \<and> isCitationStale example_parseDate example_now False (str ''2024-01-01'')"
proof -
  have parsed:
    "example_parseDate (str ''sans date'') = None"
    "example_parseDate [] = None"
    "example_parseDate (str ''2024-01-01'') = Some (example_now - 91 * msPerDay)"
    "example_parseDate (str ''2024-03-22'') = Some (example_now - 10 * msPerDay)"
    by (simp_all add: example_parseDate_def example_now_def msPerDay_def str_def)
  show ?thesis
    using parsed
      isDateStale_spec
        [where parseDate = example_parseDate and now = example_now
           and da = "str ''sans date''" and db = "str ''2024-03-22''"
           and t = "example_now - 10 * msPerDay"
           and dc = "str ''2024-01-01''" and dd = "str ''2024-03-22''"
           and de = "str ''2024-01-01''"
           and opts = "\<lparr>thresholdDays = 90, offline = False\<rparr>" and off = False]
      isDateStale_spec
        [where parseDate = example_parseDate and now = example_now
           and dc = "str ''2024-01-01''" and off = True]
    by (simp add: isCitationStale_def staleThresholdDays_def msPerDay_def)
qed

section \<open>The input fields\<close>

text \<open>
  Claim C10. \<open>onSubmit\<close> empties the question and context fields exactly when it queues
  an offline submission (the question is not blank and the view is offline). After an
  online submission, answered or failed, and after a validation failure, both fields hold
  what they held.
\<close>

theorem inputs_cleared_only_when_queued_offline:
  "question (onSubmit env online outcome s) =
     (if \<not> list_all isWhiteSpace (question s) \<and> \<not> online then [] else question s)
   \<and> contextText (onSubmit env online outcome s) =
     (if \<not> list_all isWhiteSpace (question s) \<and> \<not> online then [] else contextText s)"
  by (simp add: onSubmit_def trim_eq_Nil_iff Let_def effect_defs currentDraft_def split: sum.splits)

theorem inputs_cleared_only_when_queued_offline_witness:
  "question (onSubmit example_env True (Inr example_run) example_state) =
     str ''Quelle est la prescription applicable ?''
   \<and> contextText (onSubmit example_env True (Inr example_run) example_state) =
     str ''Bail commercial''
   \<and> question (onSubmit example_env True (Inl NotAnError) example_state) =
     str ''Quelle est la prescription applicable ?''
   \<and> contextText (onSubmit example_env True (Inl NotAnError) example_state) =
     str ''Bail commercial''
   \<and> question (onSubmit example_env False (Inl NotAnError) example_state) = []
   \<and> contextText (onSubmit example_env False (Inl NotAnError) example_state) = []"
  using example_question_not_blank
    inputs_cleared_only_when_queued_offline
      [where env = example_env and online = True and outcome = "Inr example_run"
         and s = example_state]
    inputs_cleared_only_when_queued_offline
      [where env = example_env and online = True and outcome = "Inl NotAnError"
         and s = example_state]
    inputs_cleared_only_when_queued_offline
      [where env = example_env and online = False and outcome = "Inl NotAnError"
         and s = example_state]
  by (simp add: example_state_def str_def)

end
